theory Spec2Isabelle
  imports Main "HOL-Library.Word"
begin

section \<open>The Bluetooth HCI bridge of src/bluetooth/BluetoothHci.cpp\<close>

text \<open>
  The service object of \<^verbatim>\<open>BluetoothHci.cpp\<close> is embedded as a record that is passed
  through every operation and returned updated. Everything an operation does to the
  outside world (log lines, binder callbacks, calls on the device layer, writes through
  the H4 codec) is appended, in program order, to the \<open>trace\<close> field. A
  \<^verbatim>\<open>LOG_ALWAYS_FATAL\<close> aborts the process: an operation that reaches one returns
  \<open>Inl\<close> of the fault and no state. The embedding is sequential: one operation runs
  to its end before the next starts. The mutexes of the source appear where a property
  is about them: the death handler and the close it calls are also written with their
  lock guards.
\<close>

subsection \<open>Data\<close>

text \<open>
  Member names of the source that end in an underscore (\<^verbatim>\<open>management_\<close>,
  \<^verbatim>\<open>bt_fd_\<close>, \<^verbatim>\<open>has_died_\<close>) are written without it.
\<close>

type_synonym byte = "8 word"

text \<open>
  A shared pointer to a callback object is its identity, or \<open>None\<close> for
  \<^verbatim>\<open>nullptr\<close>.
\<close>

type_synonym callbacks = nat

datatype HalState = READY | INITIALIZING | ONE_CLIENT | CLOSING

datatype PacketType = COMMAND | ACL_DATA | SCO_DATA | EVENT | ISO_DATA

datatype Status = SUCCESS | ALREADY_INITIALIZED | UNABLE_TO_OPEN_INTERFACE

datatype binder_status = STATUS_BAD_VALUE | STATUS_FAILED_TRANSACTION

datatype binder_exception = EX_ILLEGAL_ARGUMENT | EX_ILLEGAL_STATE

datatype ScopedAStatus =
    ok
  | fromServiceSpecificError binder_status
  | fromExceptionCode binder_exception

text \<open>The two \<^verbatim>\<open>std::mutex\<close> members of the source.\<close>

datatype mutex = mStateMutex | mHasDiedMutex

text \<open>
  What ends the process: a \<^verbatim>\<open>LOG_ALWAYS_FATAL\<close>, a call through a null pointer, or a
  thread locking a \<^verbatim>\<open>std::mutex\<close> it already owns.
\<close>

datatype fault = LOG_ALWAYS_FATAL string | null_dereference | relocked mutex

datatype event =
    ALOGI string
  | ALOGE string
  | initializationComplete callbacks Status
  | aclDataReceived callbacks "byte list"
  | scoDataReceived callbacks "byte list"
  | hciEventReceived callbacks "byte list"
  | isoDataReceived callbacks "byte list"
  | AIBinder_linkToDeath callbacks
  | openHci_called int
  | closeHci_called
  | WatchFdForNonBlockingReads int
  | StopWatchingFileDescriptors
  | H4_Send int PacketType "byte list"

text \<open>\<^verbatim>\<open>class NetBluetoothMgmt\<close> of net_bluetooth_mgmt.h: one descriptor, \<open>-1\<close> when none.\<close>

record NetBluetoothMgmt =
  bt_fd :: int

definition NetBluetoothMgmt_new :: NetBluetoothMgmt where
  "NetBluetoothMgmt_new = \<lparr>bt_fd = - 1\<rparr>"

text \<open>
  Modelled from the spec: the bodies of \<^verbatim>\<open>NetBluetoothMgmt::openHci\<close> and
  \<^verbatim>\<open>NetBluetoothMgmt::closeHci\<close> are not among the sources (only their declarations
  are). Section 4.5 of the specification: opening returns the descriptor or a negative
  result on failure, closing closes the descriptor. The outcome \<open>r\<close> of the attempt
  (rfkill, waiting for the device node, the open itself) is decided by the system and is
  a parameter.
\<close>

definition openHci :: "NetBluetoothMgmt \<Rightarrow> int \<Rightarrow> NetBluetoothMgmt \<times> int" where
  "openHci m r = (if r < 0 then (m, r) else (m\<lparr>bt_fd := r\<rparr>, r))"

definition closeHci :: "NetBluetoothMgmt \<Rightarrow> NetBluetoothMgmt" where
  "closeHci m = m\<lparr>bt_fd := - 1\<rparr>"

text \<open>
  \<^verbatim>\<open>class BluetoothDeathRecipient\<close>. \<open>linked\<close> is the binder runtime's list of
  registrations made by \<^verbatim>\<open>AIBinder_linkToDeath\<close> with this object as cookie and not
  taken back since; the source never calls \<^verbatim>\<open>AIBinder_unlinkToDeath\<close>.
\<close>

record BluetoothDeathRecipient =
  dr_mCb :: "callbacks option"
  has_died :: bool
  linked :: "callbacks list"

text \<open>The codec \<^verbatim>\<open>H4Protocol\<close>, bound to the descriptor it was constructed with.\<close>

datatype H4Protocol = H4Protocol int

text \<open>
  \<^verbatim>\<open>class BluetoothHci\<close>. \<open>mFdWatcher\<close> holds the descriptor being watched, if any.
\<close>

record BluetoothHci =
  mState :: HalState
  mCb :: "callbacks option"
  management :: "NetBluetoothMgmt option"
  mFd :: int
  mH4 :: "H4Protocol option"
  mFdWatcher :: "int option"
  mDeathRecipient :: BluetoothDeathRecipient
  trace :: "event list"

text \<open>
  Modelled from the spec: BluetoothHci.h, which declares the members and their initial
  values, is not among the sources. Section 3 of the specification: a bridge starts
  Idle, with no client, no device and no codec.
\<close>

definition BluetoothHci_new :: BluetoothHci where
  "BluetoothHci_new =
     \<lparr>mState = READY, mCb = None, management = None, mFd = - 1, mH4 = None,
      mFdWatcher = None,
      mDeathRecipient = \<lparr>dr_mCb = None, has_died = False, linked = []\<rparr>,
      trace = []\<rparr>"

definition emit :: "event \<Rightarrow> BluetoothHci \<Rightarrow> BluetoothHci" where
  "emit e s = s\<lparr>trace := trace s @ [e]\<rparr>"

text \<open>The device is held when the management object owns an open descriptor.\<close>

definition device_held :: "BluetoothHci \<Rightarrow> bool" where
  "device_held s = (case management s of None \<Rightarrow> False | Some m \<Rightarrow> 0 \<le> bt_fd m)"

subsection \<open>The death recipient\<close>

text \<open>
  \<^verbatim>\<open>LinkToDeath\<close>: \<open>link_ok\<close> tells whether \<^verbatim>\<open>AIBinder_linkToDeath\<close> returned
  \<^verbatim>\<open>STATUS_OK\<close>.
\<close>

definition LinkToDeath ::
  "BluetoothDeathRecipient \<Rightarrow> callbacks \<Rightarrow> bool \<Rightarrow> fault + BluetoothDeathRecipient" where
  "LinkToDeath d cb link_ok =
     (if \<not> link_ok then Inl (LOG_ALWAYS_FATAL ''Unable to link to death recipient'')
      else Inr (d\<lparr>dr_mCb := Some cb, linked := linked d @ [cb]\<rparr>))"

definition UnlinkToDeath ::
  "BluetoothDeathRecipient \<Rightarrow> callbacks option \<Rightarrow> fault + BluetoothDeathRecipient" where
  "UnlinkToDeath d cb =
     (if cb \<noteq> dr_mCb d then Inl (LOG_ALWAYS_FATAL ''Unable to unlink mismatched pointers'')
      else Inr d)"

definition getHasDied :: "BluetoothDeathRecipient \<Rightarrow> bool" where
  "getHasDied d = has_died d"

subsection \<open>close\<close>

definition close :: "BluetoothHci \<Rightarrow> fault + (ScopedAStatus \<times> BluetoothHci)" where
  "close s0 =
     (let s = emit (ALOGI ''close'') s0 in
      if mState s \<noteq> ONE_CLIENT then
        (if mState s = INITIALIZING then Inl (LOG_ALWAYS_FATAL ''mState is INITIALIZING'')
         else Inr (ok, emit (ALOGI ''Already closed'') s))
      else
        (let s1 = s\<lparr>mState := CLOSING\<rparr>;
             s2 = emit StopWatchingFileDescriptors (s1\<lparr>mFdWatcher := None\<rparr>)
         in case management s2 of
              None \<Rightarrow> Inl null_dereference
            | Some m \<Rightarrow>
                (let s3 = emit closeHci_called (s2\<lparr>management := Some (closeHci m)\<rparr>)
                 in Inr (ok, s3\<lparr>mState := READY, mH4 := None\<rparr>))))"

subsection \<open>initialize\<close>

text \<open>
  The parameters after the callback are what the environment answers during the call:
  \<open>r\<close> is the result of \<^verbatim>\<open>openHci\<close>, \<open>link_ok\<close> whether the death link could be
  registered, \<open>sent\<close> whether \<^verbatim>\<open>initializationComplete(SUCCESS)\<close> reached the client
  (\<^verbatim>\<open>status.isOk()\<close>). The results of the two other completion callbacks are ignored
  by the source.
\<close>

definition initialize ::
  "BluetoothHci \<Rightarrow> callbacks option \<Rightarrow> int \<Rightarrow> bool \<Rightarrow> bool
     \<Rightarrow> fault + (ScopedAStatus \<times> BluetoothHci)" where
  "initialize s0 cb r link_ok sent =
     (let s = emit (ALOGI ''initialize'') s0 in
      case cb of
        None \<Rightarrow>
          Inr (fromServiceSpecificError STATUS_BAD_VALUE,
               emit (ALOGE ''cb == nullptr! -> Unable to call initializationComplete(ERR)'') s)
      | Some c \<Rightarrow>
          if mState s \<noteq> READY then
            (case close (emit (ALOGE ''initialize: Unexpected State %d'') s) of
               Inl f \<Rightarrow> Inl f
             | Inr (_, s1) \<Rightarrow> Inr (ok, emit (initializationComplete c ALREADY_INITIALIZED) s1))
          else
            (let s1 = s\<lparr>mState := INITIALIZING\<rparr>;
                 (m, fd) = openHci NetBluetoothMgmt_new r;
                 s2 = emit (openHci_called fd)
                        (s1\<lparr>mCb := Some c, management := Some m, mFd := fd\<rparr>)
             in if mFd s2 < 0 then
                  (let s3 = emit (ALOGI ''Unable to open Linux interface.'')
                              (s2\<lparr>management := None\<rparr>);
                       s4 = s3\<lparr>mState := READY\<rparr>
                   in Inr (ok, emit (initializationComplete c UNABLE_TO_OPEN_INTERFACE) s4))
                else
                  (case LinkToDeath (mDeathRecipient s2) c link_ok of
                     Inl f \<Rightarrow> Inl f
                   | Inr d \<Rightarrow>
                       (let s3 = emit (AIBinder_linkToDeath c) (s2\<lparr>mDeathRecipient := d\<rparr>);
                            s4 = s3\<lparr>mH4 := Some (H4Protocol (mFd s3))\<rparr>;
                            s5 = emit (WatchFdForNonBlockingReads (mFd s4))
                                   (s4\<lparr>mFdWatcher := Some (mFd s4)\<rparr>);
                            s6 = emit (ALOGI ''initialization complete'')
                                   (s5\<lparr>mState := ONE_CLIENT\<rparr>);
                            s7 = emit (initializationComplete c SUCCESS) s6
                        in if \<not> sent then
                             (let s8 = (if \<not> getHasDied (mDeathRecipient s7)
                                        then emit (ALOGE ''Error sending init callback, but no death notification'') s7
                                        else s7)
                              in case close s8 of
                                   Inl f \<Rightarrow> Inl f
                                 | Inr (_, s9) \<Rightarrow>
                                     Inr (fromServiceSpecificError STATUS_FAILED_TRANSACTION, s9))
                           else Inr (ok, s7)))))"

subsection \<open>send\<close>

definition send ::
  "BluetoothHci \<Rightarrow> PacketType \<Rightarrow> byte list \<Rightarrow> ScopedAStatus \<times> BluetoothHci" where
  "send s type v =
     (if v = [] then
        (fromExceptionCode EX_ILLEGAL_ARGUMENT,
         emit (ALOGE ''Packet is empty, no data was found to be sent'') s)
      else case mH4 s of
             None \<Rightarrow> (fromExceptionCode EX_ILLEGAL_STATE, s)
           | Some (H4Protocol fd) \<Rightarrow> (ok, emit (H4_Send fd type v) s))"

definition sendHciCommand :: "BluetoothHci \<Rightarrow> byte list \<Rightarrow> ScopedAStatus \<times> BluetoothHci" where
  "sendHciCommand s packet = send s COMMAND packet"

definition sendAclData :: "BluetoothHci \<Rightarrow> byte list \<Rightarrow> ScopedAStatus \<times> BluetoothHci" where
  "sendAclData s packet = send s ACL_DATA packet"

definition sendScoData :: "BluetoothHci \<Rightarrow> byte list \<Rightarrow> ScopedAStatus \<times> BluetoothHci" where
  "sendScoData s packet = send s SCO_DATA packet"

definition sendIsoData :: "BluetoothHci \<Rightarrow> byte list \<Rightarrow> ScopedAStatus \<times> BluetoothHci" where
  "sendIsoData s packet = send s ISO_DATA packet"

subsection \<open>Death notification\<close>

text \<open>
  \<^verbatim>\<open>serviceDied\<close>; \<open>alive\<close> is the answer of \<^verbatim>\<open>AIBinder_isAlive\<close> for the
  registered callback, asked only when there is one. \<^verbatim>\<open>OnDeath\<close> casts its cookie
  back to the recipient and calls it.
\<close>

definition serviceDied :: "BluetoothHci \<Rightarrow> bool \<Rightarrow> fault + BluetoothHci" where
  "serviceDied s alive =
     (if dr_mCb (mDeathRecipient s) \<noteq> None \<and> \<not> alive then
        (let s1 = emit (ALOGE ''Bluetooth remote service has died'') s;
             s2 = s1\<lparr>mDeathRecipient := (mDeathRecipient s1)\<lparr>has_died := True\<rparr>\<rparr>
         in case close s2 of Inl f \<Rightarrow> Inl f | Inr (_, s3) \<Rightarrow> Inr s3)
      else
        Inr (emit (ALOGE ''BluetoothDeathRecipient::serviceDied called but service not dead'') s))"

definition OnDeath :: "BluetoothHci \<Rightarrow> bool \<Rightarrow> fault + BluetoothHci" where
  "OnDeath s alive = serviceDied s alive"

subsection \<open>Death notification, with the mutexes\<close>

text \<open>
  The definitions above run one operation at a time and leave the mutexes out. Here the
  handler \<^verbatim>\<open>serviceDied\<close> and the \<^verbatim>\<open>close\<close> it calls are written once more, this
  time with every \<^verbatim>\<open>std::lock_guard\<close> of the source: the running thread carries the
  mutexes it holds, and a log records each acquisition and release, each read and write
  of a member that a mutex guards together with the mutexes held at that moment, and
  the entry into \<^verbatim>\<open>close\<close>.
\<close>

datatype guarded = var_mState | var_mH4 | var_has_died

datatype sync_event =
    acquired mutex
  | released mutex
  | read_of guarded "mutex list"
  | write_of guarded "mutex list"
  | close_entered "mutex list"

record thread_view =
  obj :: BluetoothHci
  held :: "mutex list"
  sync :: "sync_event list"

text \<open>Construction and destruction of a \<^verbatim>\<open>std::lock_guard\<close> on a mutex.\<close>

definition lock_guard :: "mutex \<Rightarrow> thread_view \<Rightarrow> fault + thread_view" where
  "lock_guard m t =
     (if m \<in> set (held t) then Inl (relocked m)
      else Inr (t\<lparr>held := m # held t, sync := sync t @ [acquired m]\<rparr>))"

definition lock_guard_end :: "mutex \<Rightarrow> thread_view \<Rightarrow> thread_view" where
  "lock_guard_end m t = t\<lparr>held := removeAll m (held t), sync := sync t @ [released m]\<rparr>"

definition load :: "guarded \<Rightarrow> thread_view \<Rightarrow> thread_view" where
  "load g t = t\<lparr>sync := sync t @ [read_of g (held t)]\<rparr>"

definition store :: "guarded \<Rightarrow> (BluetoothHci \<Rightarrow> BluetoothHci) \<Rightarrow> thread_view \<Rightarrow> thread_view" where
  "store g f t = t\<lparr>obj := f (obj t), sync := sync t @ [write_of g (held t)]\<rparr>"

definition on_obj :: "(BluetoothHci \<Rightarrow> BluetoothHci) \<Rightarrow> thread_view \<Rightarrow> thread_view" where
  "on_obj f t = t\<lparr>obj := f (obj t)\<rparr>"

text \<open>A thread that enters the object holding none of its mutexes.\<close>

definition thread_start :: "BluetoothHci \<Rightarrow> thread_view" where
  "thread_start s = \<lparr>obj = s, held = [], sync = []\<rparr>"

text \<open>
  \<^verbatim>\<open>close\<close>, lines 166 to 189: the first guard spans the test of \<^verbatim>\<open>mState\<close> and
  the write of \<^verbatim>\<open>CLOSING\<close> and ends before the watcher is stopped; the second spans
  the writes of \<^verbatim>\<open>READY\<close> and of \<^verbatim>\<open>mH4\<close>.
\<close>

definition close_locked :: "thread_view \<Rightarrow> fault + (ScopedAStatus \<times> thread_view)" where
  "close_locked t0 =
     (let t = on_obj (emit (ALOGI ''close'')) (t0\<lparr>sync := sync t0 @ [close_entered (held t0)]\<rparr>) in
      case lock_guard mStateMutex t of
        Inl f \<Rightarrow> Inl f
      | Inr t1 \<Rightarrow>
          (let t2 = load var_mState t1 in
           if mState (obj t2) \<noteq> ONE_CLIENT then
             (let t3 = load var_mState t2 in
              if mState (obj t3) = INITIALIZING
              then Inl (LOG_ALWAYS_FATAL ''mState is INITIALIZING'')
              else Inr (ok, lock_guard_end mStateMutex
                              (on_obj (emit (ALOGI ''Already closed'')) t3)))
           else
             (let t3 = store var_mState (\<lambda>s. s\<lparr>mState := CLOSING\<rparr>) t2;
                  t4 = lock_guard_end mStateMutex t3;
                  t5 = on_obj (\<lambda>s. emit StopWatchingFileDescriptors (s\<lparr>mFdWatcher := None\<rparr>)) t4
              in case management (obj t5) of
                   None \<Rightarrow> Inl null_dereference
                 | Some m \<Rightarrow>
                     (let t6 = on_obj (\<lambda>s. emit closeHci_called
                                              (s\<lparr>management := Some (closeHci m)\<rparr>)) t5
                      in case lock_guard mStateMutex t6 of
                           Inl f \<Rightarrow> Inl f
                         | Inr t7 \<Rightarrow>
                             (let t8 = store var_mState (\<lambda>s. s\<lparr>mState := READY\<rparr>) t7;
                                  t9 = store var_mH4 (\<lambda>s. s\<lparr>mH4 := None\<rparr>) t8
                              in Inr (ok, lock_guard_end mStateMutex t9))))))"

text \<open>
  \<^verbatim>\<open>serviceDied\<close>, lines 49 to 61: the guard on \<^verbatim>\<open>mHasDiedMutex\<close> spans the write
  of the flag alone and ends before \<^verbatim>\<open>mHci->close()\<close>.
\<close>

definition serviceDied_locked :: "thread_view \<Rightarrow> bool \<Rightarrow> fault + thread_view" where
  "serviceDied_locked t alive =
     (if dr_mCb (mDeathRecipient (obj t)) \<noteq> None \<and> \<not> alive then
        (let t1 = on_obj (emit (ALOGE ''Bluetooth remote service has died'')) t in
         case lock_guard mHasDiedMutex t1 of
           Inl f \<Rightarrow> Inl f
         | Inr t2 \<Rightarrow>
             (let t3 = store var_has_died
                         (\<lambda>s. s\<lparr>mDeathRecipient := (mDeathRecipient s)\<lparr>has_died := True\<rparr>\<rparr>) t2;
                  t4 = lock_guard_end mHasDiedMutex t3
              in case close_locked t4 of Inl f \<Rightarrow> Inl f | Inr (_, t5) \<Rightarrow> Inr t5))
      else
        Inr (on_obj (emit (ALOGE ''BluetoothDeathRecipient::serviceDied called but service not dead'')) t))"

definition OnDeath_locked :: "thread_view \<Rightarrow> bool \<Rightarrow> fault + thread_view" where
  "OnDeath_locked t alive = serviceDied_locked t alive"

subsection \<open>Inbound frames\<close>

text \<open>
  The callbacks that \<^verbatim>\<open>initialize\<close> hands to the codec, in the order of the
  constructor call: command, ACL, SCO, event, ISO. All but the first call through
  \<^verbatim>\<open>mCb\<close>.
\<close>

definition to_client ::
  "BluetoothHci \<Rightarrow> (callbacks \<Rightarrow> byte list \<Rightarrow> event) \<Rightarrow> byte list \<Rightarrow> fault + BluetoothHci" where
  "to_client s received raw =
     (case mCb s of None \<Rightarrow> Inl null_dereference | Some c \<Rightarrow> Inr (emit (received c raw) s))"

definition cmd_cb :: "BluetoothHci \<Rightarrow> byte list \<Rightarrow> fault + BluetoothHci" where
  "cmd_cb s raw_command = Inl (LOG_ALWAYS_FATAL ''Unexpected command!'')"

definition acl_cb :: "BluetoothHci \<Rightarrow> byte list \<Rightarrow> fault + BluetoothHci" where
  "acl_cb s raw_acl = to_client s aclDataReceived raw_acl"

definition sco_cb :: "BluetoothHci \<Rightarrow> byte list \<Rightarrow> fault + BluetoothHci" where
  "sco_cb s raw_sco = to_client s scoDataReceived raw_sco"

definition event_cb :: "BluetoothHci \<Rightarrow> byte list \<Rightarrow> fault + BluetoothHci" where
  "event_cb s raw_event = to_client s hciEventReceived raw_event"

definition iso_cb :: "BluetoothHci \<Rightarrow> byte list \<Rightarrow> fault + BluetoothHci" where
  "iso_cb s raw_iso = to_client s isoDataReceived raw_iso"

definition disconnect_cb :: "BluetoothHci \<Rightarrow> BluetoothHci" where
  "disconnect_cb s =
     emit StopWatchingFileDescriptors
       ((emit (ALOGI ''HCI socket device disconnected'') s)\<lparr>mFdWatcher := None\<rparr>)"

text \<open>
  Modelled from the spec: \<^verbatim>\<open>H4Protocol\<close> is a library class outside the sources.
  Section 4.2 of the specification: each completed inbound frame goes to exactly one
  callback, chosen by its kind, in the order the frames were completed. The frames that
  one \<^verbatim>\<open>OnDataReady\<close> completes are a parameter; the callbacks are those above.
\<close>

fun on_packet_ready :: "BluetoothHci \<Rightarrow> PacketType \<times> byte list \<Rightarrow> fault + BluetoothHci" where
  "on_packet_ready s (COMMAND, raw) = cmd_cb s raw"
| "on_packet_ready s (ACL_DATA, raw) = acl_cb s raw"
| "on_packet_ready s (SCO_DATA, raw) = sco_cb s raw"
| "on_packet_ready s (EVENT, raw) = event_cb s raw"
| "on_packet_ready s (ISO_DATA, raw) = iso_cb s raw"

fun OnDataReady :: "BluetoothHci \<Rightarrow> (PacketType \<times> byte list) list \<Rightarrow> fault + BluetoothHci" where
  "OnDataReady s [] = Inr s"
| "OnDataReady s (f # fs) =
     (case on_packet_ready s f of Inl e \<Rightarrow> Inl e | Inr s' \<Rightarrow> OnDataReady s' fs)"

text \<open>
  What a frame leaves at the client when its callback returns: the binder call made
  through \<^verbatim>\<open>mCb\<close>. The callback interface has no method for commands.
\<close>

fun delivery :: "callbacks \<Rightarrow> PacketType \<times> byte list \<Rightarrow> event option" where
  "delivery c (COMMAND, raw) = None"
| "delivery c (ACL_DATA, raw) = Some (aclDataReceived c raw)"
| "delivery c (SCO_DATA, raw) = Some (scoDataReceived c raw)"
| "delivery c (EVENT, raw) = Some (hciEventReceived c raw)"
| "delivery c (ISO_DATA, raw) = Some (isoDataReceived c raw)"

subsection \<open>Sequences of calls\<close>

text \<open>
  The calls that reach the object, each with the answers of the environment. A readiness
  event reaches the watcher's callback \<^verbatim>\<open>mH4->OnDataReady()\<close> only while a
  descriptor is watched.
\<close>

datatype call =
    Initialize "callbacks option" int bool bool
  | Close
  | Send PacketType "byte list"
  | ServiceDied bool
  | DataReady "(PacketType \<times> byte list) list"
  | Disconnected

fun step :: "BluetoothHci \<Rightarrow> call \<Rightarrow> fault + BluetoothHci" where
  "step s (Initialize cb r link_ok sent) =
     (case initialize s cb r link_ok sent of Inl f \<Rightarrow> Inl f | Inr (_, s') \<Rightarrow> Inr s')"
| "step s Close = (case close s of Inl f \<Rightarrow> Inl f | Inr (_, s') \<Rightarrow> Inr s')"
| "step s (Send type v) = Inr (snd (send s type v))"
| "step s (ServiceDied alive) = OnDeath s alive"
| "step s (DataReady fs) =
     (case mFdWatcher s of
        None \<Rightarrow> Inr s
      | Some _ \<Rightarrow> (case mH4 s of None \<Rightarrow> Inl null_dereference | Some _ \<Rightarrow> OnDataReady s fs))"
| "step s Disconnected =
     (case mFdWatcher s of None \<Rightarrow> Inr s | Some _ \<Rightarrow> Inr (disconnect_cb s))"

fun run :: "BluetoothHci \<Rightarrow> call list \<Rightarrow> fault + BluetoothHci" where
  "run s [] = Inr s"
| "run s (c # cs) = (case step s c of Inl f \<Rightarrow> Inl f | Inr s' \<Rightarrow> run s' cs)"

subsection \<open>Properties of a state\<close>

text \<open>
  Whether the device is open after a trace, read off the calls on the device layer alone:
  a successful \<^verbatim>\<open>openHci\<close> opens it, \<^verbatim>\<open>closeHci\<close> closes it.
\<close>

fun device_effect :: "bool \<Rightarrow> event \<Rightarrow> bool" where
  "device_effect h (openHci_called r) = (if 0 \<le> r then True else h)"
| "device_effect h closeHci_called = False"
| "device_effect h _ = h"

definition device_open_after :: "event list \<Rightarrow> bool" where
  "device_open_after tr = foldl device_effect False tr"

text \<open>The writes to the device in a trace.\<close>

fun is_write :: "event \<Rightarrow> bool" where
  "is_write (H4_Send fd type v) = True"
| "is_write _ = False"

definition writes :: "BluetoothHci \<Rightarrow> event list" where
  "writes s = filter is_write (trace s)"

text \<open>
  The two shapes of the object between calls: a live session on an open descriptor, or
  none at all.
\<close>

definition session_live :: "BluetoothHci \<Rightarrow> bool" where
  "session_live s =
     (mState s = ONE_CLIENT \<and> mCb s \<noteq> None \<and> dr_mCb (mDeathRecipient s) = mCb s
      \<and> 0 \<le> mFd s \<and> mH4 s = Some (H4Protocol (mFd s))
      \<and> management s = Some \<lparr>bt_fd = mFd s\<rparr> \<and> device_open_after (trace s))"

definition session_idle :: "BluetoothHci \<Rightarrow> bool" where
  "session_idle s =
     (mState s = READY \<and> mH4 s = None \<and> mFdWatcher s = None \<and> \<not> device_held s
      \<and> \<not> device_open_after (trace s))"

definition session_inv :: "BluetoothHci \<Rightarrow> bool" where
  "session_inv s = (session_live s \<or> session_idle s)"

section \<open>Each path through the operations\<close>

text \<open>
  One equation per path of \<^verbatim>\<open>close\<close> and \<^verbatim>\<open>initialize\<close>, giving the whole
  resulting object. The later proofs rest on these.
\<close>

lemma device_open_after_append:
  "device_open_after (tr @ es) = foldl device_effect (device_open_after tr) es"
  by (simp add: device_open_after_def)

lemma device_open_after_Nil: "\<not> device_open_after []"
  by (simp add: device_open_after_def)

lemma close_not_active:
  "mState s \<noteq> ONE_CLIENT \<Longrightarrow>
   close s = (if mState s = INITIALIZING then Inl (LOG_ALWAYS_FATAL ''mState is INITIALIZING'')
              else Inr (ok, s\<lparr>trace := trace s @ [ALOGI ''close'', ALOGI ''Already closed'']\<rparr>))"
  by (simp add: close_def emit_def)

lemma close_active:
  "mState s = ONE_CLIENT \<Longrightarrow> management s = Some m \<Longrightarrow>
   close s = Inr (ok, s\<lparr>mState := READY, management := Some (closeHci m), mH4 := None,
                          mFdWatcher := None,
                          trace := trace s @ [ALOGI ''close'', StopWatchingFileDescriptors, closeHci_called]\<rparr>)"
  by (simp add: close_def emit_def)

lemma close_active_null:
  "mState s = ONE_CLIENT \<Longrightarrow> management s = None \<Longrightarrow> close s = Inl null_dereference"
  by (simp add: close_def emit_def)

lemma initialize_null:
  "initialize s None r link_ok sent =
     Inr (fromServiceSpecificError STATUS_BAD_VALUE,
          s\<lparr>trace := trace s @ [ALOGI ''initialize'',
              ALOGE ''cb == nullptr! -> Unable to call initializationComplete(ERR)'']\<rparr>)"
  by (simp add: initialize_def emit_def)

lemma initialize_busy:
  "mState s \<noteq> READY \<Longrightarrow>
   initialize s (Some c) r link_ok sent =
     (case close (s\<lparr>trace := trace s @ [ALOGI ''initialize'', ALOGE ''initialize: Unexpected State %d'']\<rparr>) of
        Inl f \<Rightarrow> Inl f
      | Inr (st, s1) \<Rightarrow> Inr (ok, s1\<lparr>trace := trace s1 @ [initializationComplete c ALREADY_INITIALIZED]\<rparr>))"
  by (simp add: initialize_def emit_def split: sum.splits)

lemma initialize_open_failed:
  "mState s = READY \<Longrightarrow> r < 0 \<Longrightarrow>
   initialize s (Some c) r link_ok sent =
     Inr (ok, s\<lparr>mState := READY, mCb := Some c, management := None, mFd := r,
                 trace := trace s @ [ALOGI ''initialize'', openHci_called r,
                                     ALOGI ''Unable to open Linux interface.'',
                                     initializationComplete c UNABLE_TO_OPEN_INTERFACE]\<rparr>)"
  by (simp add: initialize_def emit_def openHci_def)

lemma initialize_link_failed:
  "mState s = READY \<Longrightarrow> 0 \<le> r \<Longrightarrow>
   initialize s (Some c) r False sent = Inl (LOG_ALWAYS_FATAL ''Unable to link to death recipient'')"
  by (simp add: initialize_def emit_def openHci_def LinkToDeath_def)

lemma initialize_success:
  "mState s = READY \<Longrightarrow> 0 \<le> r \<Longrightarrow>
   initialize s (Some c) r True True =
     Inr (ok, s\<lparr>mState := ONE_CLIENT, mCb := Some c, management := Some \<lparr>bt_fd = r\<rparr>, mFd := r,
                 mH4 := Some (H4Protocol r), mFdWatcher := Some r,
                 mDeathRecipient := (mDeathRecipient s)\<lparr>dr_mCb := Some c, linked := linked (mDeathRecipient s) @ [c]\<rparr>,
                 trace := trace s @ [ALOGI ''initialize'', openHci_called r, AIBinder_linkToDeath c,
                                     WatchFdForNonBlockingReads r, ALOGI ''initialization complete'',
                                     initializationComplete c SUCCESS]\<rparr>)"
  by (simp add: initialize_def emit_def openHci_def LinkToDeath_def NetBluetoothMgmt_new_def)

lemma initialize_unsent:
  "mState s = READY \<Longrightarrow> 0 \<le> r \<Longrightarrow>
   initialize s (Some c) r True False =
     Inr (fromServiceSpecificError STATUS_FAILED_TRANSACTION,
          s\<lparr>mState := READY, mCb := Some c, management := Some \<lparr>bt_fd = - 1\<rparr>, mFd := r,
                 mH4 := None, mFdWatcher := None,
                 mDeathRecipient := (mDeathRecipient s)\<lparr>dr_mCb := Some c, linked := linked (mDeathRecipient s) @ [c]\<rparr>,
                 trace := trace s @ [ALOGI ''initialize'', openHci_called r, AIBinder_linkToDeath c,
                                     WatchFdForNonBlockingReads r, ALOGI ''initialization complete'',
                                     initializationComplete c SUCCESS] @
                          (if has_died (mDeathRecipient s) then []
                           else [ALOGE ''Error sending init callback, but no death notification'']) @
                          [ALOGI ''close'', StopWatchingFileDescriptors, closeHci_called]\<rparr>)"
  by (simp add: initialize_def close_def emit_def openHci_def closeHci_def LinkToDeath_def NetBluetoothMgmt_new_def getHasDied_def)

section \<open>The invariant between calls\<close>

text \<open>
  The new object satisfies \<open>session_inv\<close>, every call that returns keeps it, and so
  it holds after every sequence of calls that the process survives.
\<close>

lemmas inv_unf = device_held_def device_open_after_append session_live_def session_idle_def session_inv_def

lemma new_inv: "session_inv BluetoothHci_new"
  by (simp add: BluetoothHci_new_def inv_unf device_open_after_Nil)

lemma close_live: "session_live s \<Longrightarrow> \<exists>s'. close s = Inr (ok, s') \<and> session_idle s'"
  by (simp add: close_active [where m = "\<lparr>bt_fd = mFd s\<rparr>"] closeHci_def inv_unf)

lemma close_idle: "session_idle s \<Longrightarrow> \<exists>s'. close s = Inr (ok, s') \<and> session_idle s'"
  by (simp add: close_not_active inv_unf)

lemma close_inv: "session_inv s \<Longrightarrow> \<exists>s'. close s = Inr (ok, s') \<and> session_idle s'"
  using close_live close_idle by (auto simp: session_inv_def)

lemma trace_only_live:
  "session_live s \<Longrightarrow> foldl device_effect True es = True \<Longrightarrow>
   session_live (s\<lparr>trace := trace s @ es\<rparr>)"
  by (simp add: inv_unf)

lemma trace_only_idle:
  "session_idle s \<Longrightarrow> foldl device_effect False es = False \<Longrightarrow>
   session_idle (s\<lparr>trace := trace s @ es\<rparr>)"
  by (simp add: inv_unf)

lemma initialize_inv:
  assumes "session_inv s" and "initialize s cb r link_ok sent = Inr (st, s')"
  shows "session_inv s'"
proof (cases cb)
  case None
  with assms show ?thesis
    by (auto simp: initialize_null session_inv_def intro: trace_only_live trace_only_idle)
next
  case (Some c)
  show ?thesis
  proof (cases "mState s = READY")
    case False
    then have live: "session_live s" using assms(1) by (simp add: session_inv_def session_idle_def)
    let ?s1 = "s\<lparr>trace := trace s @ [ALOGI ''initialize'', ALOGE ''initialize: Unexpected State %d'']\<rparr>"
    have "session_live ?s1" using live by (rule trace_only_live) simp
    then obtain s2 where c: "close ?s1 = Inr (ok, s2)" and i: "session_idle s2"
      using close_live by blast
    have "s' = s2\<lparr>trace := trace s2 @ [initializationComplete c ALREADY_INITIALIZED]\<rparr>"
      using assms(2) Some False c by (simp add: initialize_busy)
    then show ?thesis using i by (simp add: session_inv_def trace_only_idle)
  next
    case True
    then have idle: "session_idle s" using assms(1) by (simp add: session_inv_def session_live_def)
    show ?thesis
    proof (cases "r < 0")
      case True
      with assms(2) Some \<open>mState s = READY\<close> idle show ?thesis
        by (auto simp: initialize_open_failed inv_unf)
    next
      case False
      then have r: "0 \<le> r" by simp
      show ?thesis
      proof (cases link_ok)
        case False
        with assms(2) Some \<open>mState s = READY\<close> r show ?thesis
          by (simp add: initialize_link_failed)
      next
        case True
        with assms(2) Some \<open>mState s = READY\<close> r idle show ?thesis
          by (cases sent) (auto simp: initialize_success initialize_unsent inv_unf)
      qed
    qed
  qed
qed

lemma send_inv: "session_inv s \<Longrightarrow> session_inv (snd (send s type v))"
  by (auto simp: send_def emit_def inv_unf split: option.splits H4Protocol.splits)

lemma serviceDied_inv:
  assumes "session_inv s" and "serviceDied s alive = Inr s'"
  shows "session_inv s'"
proof (cases "dr_mCb (mDeathRecipient s) \<noteq> None \<and> \<not> alive")
  case False
  with assms show ?thesis
    by (auto simp: serviceDied_def emit_def inv_unf)
next
  case True
  let ?s2 = "s\<lparr>trace := trace s @ [ALOGE ''Bluetooth remote service has died''],
                mDeathRecipient := (mDeathRecipient s)\<lparr>has_died := True\<rparr>\<rparr>"
  have "session_inv ?s2" using assms(1) by (auto simp: inv_unf)
  then obtain s3 where c: "close ?s2 = Inr (ok, s3)" and i: "session_idle s3"
    using close_inv by blast
  have "s' = s3" using assms(2) True c by (simp add: serviceDied_def emit_def)
  then show ?thesis using i by (simp add: session_inv_def)
qed

lemma on_packet_ready_inv: "session_inv s \<Longrightarrow> on_packet_ready s f = Inr s' \<Longrightarrow> session_inv s'"
  by (cases "(s, f)" rule: on_packet_ready.cases)
     (auto simp: cmd_cb_def acl_cb_def sco_cb_def event_cb_def iso_cb_def to_client_def emit_def inv_unf
           split: option.splits)

lemma OnDataReady_inv: "session_inv s \<Longrightarrow> OnDataReady s fs = Inr s' \<Longrightarrow> session_inv s'"
  by (induction fs arbitrary: s) (auto split: sum.splits dest: on_packet_ready_inv)

lemma disconnect_inv: "session_live s \<Longrightarrow> session_live (disconnect_cb s)"
  by (simp add: disconnect_cb_def emit_def inv_unf)

lemma step_inv:
  assumes "session_inv s" and "step s c = Inr s'"
  shows "session_inv s'"
proof (cases c)
  case (Initialize cb r link_ok sent)
  with assms show ?thesis by (auto split: sum.splits dest: initialize_inv)
next
  case Close
  with assms close_inv [OF assms(1)] show ?thesis by (auto simp: session_inv_def)
next
  case (Send type v)
  with assms send_inv [OF assms(1), of type v] show ?thesis by auto
next
  case (ServiceDied alive)
  with assms show ?thesis by (auto simp: OnDeath_def dest: serviceDied_inv)
next
  case (DataReady fs)
  with assms show ?thesis by (auto split: option.splits dest: OnDataReady_inv)
next
  case Disconnected
  with assms show ?thesis
    by (auto simp: session_inv_def session_idle_def split: option.splits dest: disconnect_inv)
qed

lemma run_inv: "session_inv s \<Longrightarrow> run s cs = Inr s' \<Longrightarrow> session_inv s'"
  by (induction cs arbitrary: s) (auto split: sum.splits dest: step_inv)

lemma reachable_inv: "run BluetoothHci_new cs = Inr s \<Longrightarrow> session_inv s"
  using run_inv [OF new_inv] .

section \<open>Frames arriving from the controller\<close>

lemma on_packet_ready_client:
  "mCb s = Some c \<Longrightarrow>
   on_packet_ready s f =
     (case delivery c f of
        None \<Rightarrow> Inl (LOG_ALWAYS_FATAL ''Unexpected command!'')
      | Some e \<Rightarrow> Inr (s\<lparr>trace := trace s @ [e]\<rparr>))"
  by (cases "(s, f)" rule: on_packet_ready.cases)
     (simp_all add: cmd_cb_def acl_cb_def sco_cb_def event_cb_def iso_cb_def to_client_def emit_def)

lemma delivery_None: "delivery c f = None \<longleftrightarrow> fst f = COMMAND"
  by (cases "(c, f)" rule: delivery.cases) simp_all

section \<open>The death handler with its mutexes\<close>

text \<open>
  With a thread that holds no mutex on entry, the handler and \<^verbatim>\<open>close\<close> written with
  their lock guards leave the object exactly as the sequential definitions do, in every
  state and for every answer of the binder; no mutex is locked twice.
\<close>

lemmas locked_unf = lock_guard_def lock_guard_end_def load_def store_def on_obj_def thread_start_def

lemma close_locked_erases:
  "mStateMutex \<notin> set (held t) \<Longrightarrow>
   (case close_locked t of Inl f \<Rightarrow> Inl f | Inr (st, t') \<Rightarrow> Inr (st, obj t')) = close (obj t)"
  by (simp add: close_locked_def close_def locked_unf emit_def Let_def split: option.splits)

lemma serviceDied_locked_erases:
  "(case serviceDied_locked (thread_start s) alive of Inl f \<Rightarrow> Inl f | Inr t' \<Rightarrow> Inr (obj t'))
     = serviceDied s alive"
  by (simp add: serviceDied_locked_def serviceDied_def close_locked_def close_def locked_unf
        emit_def Let_def split: option.splits)

lemma close_locked_active:
  "mState (obj t) = ONE_CLIENT \<Longrightarrow> management (obj t) = Some m \<Longrightarrow> mStateMutex \<notin> set (held t) \<Longrightarrow>
   close_locked t =
     Inr (ok, t\<lparr>obj := (obj t)\<lparr>mState := READY, management := Some (closeHci m), mH4 := None,
                          mFdWatcher := None,
                          trace := trace (obj t) @ [ALOGI ''close'', StopWatchingFileDescriptors, closeHci_called]\<rparr>,
                 sync := sync t @ [close_entered (held t), acquired mStateMutex,
                    read_of var_mState (mStateMutex # held t),
                    write_of var_mState (mStateMutex # held t), released mStateMutex,
                    acquired mStateMutex, write_of var_mState (mStateMutex # held t),
                    write_of var_mH4 (mStateMutex # held t), released mStateMutex]\<rparr>)"
  by (simp add: close_locked_def locked_unf emit_def)

lemma serviceDied_locked_flag_then_close:
  "dr_mCb (mDeathRecipient s) \<noteq> None \<Longrightarrow>
   serviceDied_locked (thread_start s) False =
     (case close_locked
             \<lparr>obj = s\<lparr>trace := trace s @ [ALOGE ''Bluetooth remote service has died''],
                        mDeathRecipient := (mDeathRecipient s)\<lparr>has_died := True\<rparr>\<rparr>,
              held = [],
              sync = [acquired mHasDiedMutex, write_of var_has_died [mHasDiedMutex],
                      released mHasDiedMutex]\<rparr> of
        Inl f \<Rightarrow> Inl f | Inr (st, t') \<Rightarrow> Inr t')"
  by (simp add: serviceDied_locked_def locked_unf emit_def)

section \<open>The claims\<close>

subsection \<open>C1: the device and the codec exist exactly while the session is active\<close>

text \<open>
  Claim C1. After every sequence of calls that the process survives (initialize and
  close, and also send, death notifications, readiness events and disconnects, each with
  any answer of the environment), the object is in state \<open>READY\<close> or \<open>ONE_CLIENT\<close>,
  and the codec \<open>mH4\<close> exists, the management object holds an open descriptor, and the
  last call on the device layer left the device open, each if and only if the state is
  \<open>ONE_CLIENT\<close>. In that state the codec and the management object are bound to the
  descriptor \<open>mFd\<close> that \<^verbatim>\<open>openHci\<close> returned, which is not negative. So no call
  enters the active state without an opened device and none leaves it without closing
  the device and dropping the codec.
\<close>

theorem device_lifetime_is_active_interval:
  assumes "run BluetoothHci_new cs = Inr s"
  shows "(mState s = READY \<or> mState s = ONE_CLIENT)
       \<and> (mH4 s \<noteq> None) = (mState s = ONE_CLIENT)
       \<and> device_held s = (mState s = ONE_CLIENT)
       \<and> device_open_after (trace s) = (mState s = ONE_CLIENT)
       \<and> (if mState s = ONE_CLIENT
          then 0 \<le> mFd s \<and> mH4 s = Some (H4Protocol (mFd s))
               \<and> management s = Some \<lparr>bt_fd = mFd s\<rparr>
          else mFdWatcher s = None)"
  using reachable_inv [OF assms]
  by (auto simp: session_inv_def session_live_def session_idle_def device_held_def)

theorem device_lifetime_is_active_interval_witness:
  "run BluetoothHci_new [Initialize (Some 1) 3 True True] =
     Inr (BluetoothHci_new\<lparr>mState := ONE_CLIENT, mCb := Some 1, management := Some \<lparr>bt_fd = 3\<rparr>,
            mFd := 3, mH4 := Some (H4Protocol 3), mFdWatcher := Some 3,
            mDeathRecipient := \<lparr>dr_mCb = Some 1, has_died = False, linked = [1]\<rparr>,
            trace := [ALOGI ''initialize'', openHci_called 3, AIBinder_linkToDeath 1,
                      WatchFdForNonBlockingReads 3, ALOGI ''initialization complete'',
                      initializationComplete 1 SUCCESS]\<rparr>)
   \<and> device_held (BluetoothHci_new\<lparr>mState := ONE_CLIENT, mCb := Some 1, management := Some \<lparr>bt_fd = 3\<rparr>,
            mFd := 3, mH4 := Some (H4Protocol 3), mFdWatcher := Some 3,
            mDeathRecipient := \<lparr>dr_mCb = Some 1, has_died = False, linked = [1]\<rparr>,
            trace := [ALOGI ''initialize'', openHci_called 3, AIBinder_linkToDeath 1,
                      WatchFdForNonBlockingReads 3, ALOGI ''initialization complete'',
                      initializationComplete 1 SUCCESS]\<rparr>)"
proof -
  let ?s = "BluetoothHci_new\<lparr>mState := ONE_CLIENT, mCb := Some 1, management := Some \<lparr>bt_fd = 3\<rparr>,
            mFd := 3, mH4 := Some (H4Protocol 3), mFdWatcher := Some 3,
            mDeathRecipient := \<lparr>dr_mCb = Some 1, has_died = False, linked = [1]\<rparr>,
            trace := [ALOGI ''initialize'', openHci_called 3, AIBinder_linkToDeath 1,
                      WatchFdForNonBlockingReads 3, ALOGI ''initialization complete'',
                      initializationComplete 1 SUCCESS]\<rparr>"
  have r: "run BluetoothHci_new [Initialize (Some 1) 3 True True] = Inr ?s"
    by (simp add: BluetoothHci_new_def initialize_success)
  have a: "mState ?s = ONE_CLIENT"
    by simp
  from device_lifetime_is_active_interval [OF r] a r show ?thesis
    by simp
qed

subsection \<open>C2: initialize when the state is not Idle\<close>

text \<open>
  Claim C2, as stated, fails when the state is \<open>INITIALIZING\<close>: the teardown that
  initialize starts with is the close that is fatal in that state, so the process
  terminates and nothing is reported.
\<close>

theorem initialize_while_initializing_counterexample:
  "mState (BluetoothHci_new\<lparr>mState := INITIALIZING\<rparr>) \<noteq> READY
   \<and> initialize (BluetoothHci_new\<lparr>mState := INITIALIZING\<rparr>) (Some 0) 3 True True
       = Inl (LOG_ALWAYS_FATAL ''mState is INITIALIZING'')"
  by (simp add: BluetoothHci_new_def initialize_busy close_not_active)

text \<open>
  Claim C2, amended. A call of initialize with a callback that is not null, in a state
  that is not \<open>READY\<close>, first logs the unexpected state and calls close. From
  \<open>ONE_CLIENT\<close> the close tears the session down (the watcher is stopped, the device
  closed, the codec dropped, the state \<open>READY\<close>); from \<open>CLOSING\<close> it is the no-op.
  Then the callback passed in receives \<open>ALREADY_INITIALIZED\<close>, and the call itself
  returns ok. The registered callback \<open>mCb\<close> is not replaced and no codec is created:
  no second session exists. From \<open>INITIALIZING\<close> the call ends in the fatal fault of
  close.
\<close>

theorem initialize_when_not_idle:
  assumes "mState s \<noteq> READY"
  shows "initialize s (Some c) r link_ok sent =
     (if mState s = INITIALIZING then Inl (LOG_ALWAYS_FATAL ''mState is INITIALIZING'')
      else if mState s = CLOSING then
        Inr (ok, s\<lparr>trace := trace s @
                   [ALOGI ''initialize'', ALOGE ''initialize: Unexpected State %d'',
                    ALOGI ''close'', ALOGI ''Already closed'',
                    initializationComplete c ALREADY_INITIALIZED]\<rparr>)
      else case management s of
             None \<Rightarrow> Inl null_dereference
           | Some m \<Rightarrow>
               Inr (ok, s\<lparr>mState := READY, management := Some (closeHci m), mH4 := None,
                          mFdWatcher := None,
                          trace := trace s @
                            [ALOGI ''initialize'', ALOGE ''initialize: Unexpected State %d'',
                             ALOGI ''close'', StopWatchingFileDescriptors, closeHci_called,
                             initializationComplete c ALREADY_INITIALIZED]\<rparr>))"
proof (cases "mState s")
  case READY
  with assms show ?thesis by simp
next
  case INITIALIZING
  then show ?thesis by (simp add: initialize_busy close_not_active)
next
  case CLOSING
  then show ?thesis by (simp add: initialize_busy close_not_active)
next
  case ONE_CLIENT
  then show ?thesis
    by (cases "management s") (simp_all add: initialize_busy close_active close_active_null)
qed

theorem initialize_when_not_idle_witness:
  "mState (BluetoothHci_new\<lparr>mState := ONE_CLIENT, mCb := Some 1, management := Some \<lparr>bt_fd = 3\<rparr>,
             mFd := 3, mH4 := Some (H4Protocol 3), mFdWatcher := Some 3\<rparr>) \<noteq> READY
   \<and> initialize (BluetoothHci_new\<lparr>mState := ONE_CLIENT, mCb := Some 1, management := Some \<lparr>bt_fd = 3\<rparr>,
             mFd := 3, mH4 := Some (H4Protocol 3), mFdWatcher := Some 3\<rparr>) (Some 2) 4 True True
     = Inr (ok, BluetoothHci_new\<lparr>mState := READY, mCb := Some 1, management := Some \<lparr>bt_fd = - 1\<rparr>,
             mFd := 3, mH4 := None, mFdWatcher := None,
             trace := [ALOGI ''initialize'', ALOGE ''initialize: Unexpected State %d'',
                       ALOGI ''close'', StopWatchingFileDescriptors, closeHci_called,
                       initializationComplete 2 ALREADY_INITIALIZED]\<rparr>)"
  using initialize_when_not_idle [of "BluetoothHci_new\<lparr>mState := ONE_CLIENT, mCb := Some 1, management := Some \<lparr>bt_fd = 3\<rparr>,
             mFd := 3, mH4 := Some (H4Protocol 3), mFdWatcher := Some 3\<rparr>" 2 4 True True]
  by (simp add: BluetoothHci_new_def closeHci_def)

subsection \<open>C3: close when the state is not Active\<close>

text \<open>
  Claim C3. When the state is not \<open>ONE_CLIENT\<close>, close ends in the fatal fault if the
  state is \<open>INITIALIZING\<close>; otherwise (\<open>READY\<close> or \<open>CLOSING\<close>) it returns ok and
  leaves every member as it was: only two log lines are added to the trace.
\<close>

theorem close_when_not_active:
  assumes "mState s \<noteq> ONE_CLIENT"
  shows "close s =
     (if mState s = INITIALIZING then Inl (LOG_ALWAYS_FATAL ''mState is INITIALIZING'')
      else Inr (ok, s\<lparr>trace := trace s @ [ALOGI ''close'', ALOGI ''Already closed'']\<rparr>))"
  using assms by (rule close_not_active)

theorem close_when_not_active_witness:
  "mState BluetoothHci_new \<noteq> ONE_CLIENT
   \<and> close BluetoothHci_new
       = Inr (ok, BluetoothHci_new\<lparr>trace := [ALOGI ''close'', ALOGI ''Already closed'']\<rparr>)
   \<and> mState (BluetoothHci_new\<lparr>mState := INITIALIZING\<rparr>) \<noteq> ONE_CLIENT
   \<and> close (BluetoothHci_new\<lparr>mState := INITIALIZING\<rparr>)
       = Inl (LOG_ALWAYS_FATAL ''mState is INITIALIZING'')"
  using close_when_not_active [of BluetoothHci_new]
        close_when_not_active [of "BluetoothHci_new\<lparr>mState := INITIALIZING\<rparr>"]
  by (simp add: BluetoothHci_new_def)

subsection \<open>C4: send with an empty payload\<close>

text \<open>
  Claim C4. In every state and for every packet type, send with an empty payload returns
  the exception \<open>EX_ILLEGAL_ARGUMENT\<close>, leaves every member as it was apart from one
  log line in the trace, and writes nothing to the device; so do the four entry points
  sendHciCommand, sendAclData, sendScoData and sendIsoData.
\<close>

theorem send_empty_payload:
  "send s type [] =
     (fromExceptionCode EX_ILLEGAL_ARGUMENT,
      s\<lparr>trace := trace s @ [ALOGE ''Packet is empty, no data was found to be sent'']\<rparr>)
   \<and> writes (snd (send s type [])) = writes s
   \<and> sendHciCommand s [] =
     (fromExceptionCode EX_ILLEGAL_ARGUMENT,
      s\<lparr>trace := trace s @ [ALOGE ''Packet is empty, no data was found to be sent'']\<rparr>)
   \<and> sendAclData s [] =
     (fromExceptionCode EX_ILLEGAL_ARGUMENT,
      s\<lparr>trace := trace s @ [ALOGE ''Packet is empty, no data was found to be sent'']\<rparr>)
   \<and> sendScoData s [] =
     (fromExceptionCode EX_ILLEGAL_ARGUMENT,
      s\<lparr>trace := trace s @ [ALOGE ''Packet is empty, no data was found to be sent'']\<rparr>)
   \<and> sendIsoData s [] =
     (fromExceptionCode EX_ILLEGAL_ARGUMENT,
      s\<lparr>trace := trace s @ [ALOGE ''Packet is empty, no data was found to be sent'']\<rparr>)"
  by (simp add: send_def emit_def writes_def sendHciCommand_def sendAclData_def
        sendScoData_def sendIsoData_def)

subsection \<open>C5: send without an active session\<close>

text \<open>
  Claim C5. For a payload that is not empty, send returns the exception
  \<open>EX_ILLEGAL_STATE\<close>, changes nothing and writes nothing to the device, whenever the
  codec \<open>mH4\<close> is null, and so whenever the object, after any sequence of calls, is
  not in state \<open>ONE_CLIENT\<close>; so do the four entry points.
\<close>

theorem send_without_codec:
  assumes "v \<noteq> []"
    and "mH4 s = None \<or> (\<exists>cs. run BluetoothHci_new cs = Inr s \<and> mState s \<noteq> ONE_CLIENT)"
  shows "send s type v = (fromExceptionCode EX_ILLEGAL_STATE, s)
       \<and> writes (snd (send s type v)) = writes s
       \<and> sendHciCommand s v = (fromExceptionCode EX_ILLEGAL_STATE, s)
       \<and> sendAclData s v = (fromExceptionCode EX_ILLEGAL_STATE, s)
       \<and> sendScoData s v = (fromExceptionCode EX_ILLEGAL_STATE, s)
       \<and> sendIsoData s v = (fromExceptionCode EX_ILLEGAL_STATE, s)"
proof -
  have "mH4 s = None"
    using assms(2) reachable_inv
    by (auto simp: session_inv_def session_live_def session_idle_def)
  with assms(1) show ?thesis
    by (simp add: send_def sendHciCommand_def sendAclData_def sendScoData_def sendIsoData_def)
qed

theorem send_without_codec_witness:
  "[1 :: byte] \<noteq> [] \<and> mH4 BluetoothHci_new = None
   \<and> send BluetoothHci_new ACL_DATA [1] = (fromExceptionCode EX_ILLEGAL_STATE, BluetoothHci_new)
   \<and> writes (snd (send BluetoothHci_new ACL_DATA [1])) = []"
proof -
  have v: "[1 :: byte] \<noteq> []" by simp
  have h: "mH4 BluetoothHci_new = None" by (simp add: BluetoothHci_new_def)
  have w: "writes BluetoothHci_new = []" by (simp add: BluetoothHci_new_def writes_def)
  from send_without_codec [OF v disjI1, OF h, of ACL_DATA] v h w show ?thesis by simp
qed

subsection \<open>C6: the device cannot be opened\<close>

text \<open>
  Claim C6. When initialize is called in state \<open>READY\<close> with a callback and
  \<^verbatim>\<open>openHci\<close> returns a negative descriptor, the call returns (the process goes
  on), the callback receives \<open>UNABLE_TO_OPEN_INTERFACE\<close>, the management object is
  dropped and the state is \<open>READY\<close> again.
\<close>

theorem initialize_open_failure:
  assumes "mState s = READY" and "r < 0"
  shows "initialize s (Some c) r link_ok sent =
     Inr (ok, s\<lparr>mState := READY, mCb := Some c, management := None, mFd := r,
                 trace := trace s @ [ALOGI ''initialize'', openHci_called r,
                                     ALOGI ''Unable to open Linux interface.'',
                                     initializationComplete c UNABLE_TO_OPEN_INTERFACE]\<rparr>)"
  using assms by (rule initialize_open_failed)

theorem initialize_open_failure_witness:
  "mState BluetoothHci_new = READY \<and> (- 1 :: int) < 0
   \<and> initialize BluetoothHci_new (Some 1) (- 1) True True =
       Inr (ok, BluetoothHci_new\<lparr>mCb := Some 1,
                  trace := [ALOGI ''initialize'', openHci_called (- 1),
                            ALOGI ''Unable to open Linux interface.'',
                            initializationComplete 1 UNABLE_TO_OPEN_INTERFACE]\<rparr>)"
  using initialize_open_failure [of BluetoothHci_new "- 1" 1 True True]
  by (simp add: BluetoothHci_new_def)

subsection \<open>C7: a command frame from the controller\<close>

text \<open>
  Claim C7. While a client callback is registered, a batch of inbound frames that holds
  a frame of kind \<open>COMMAND\<close> ends in the fatal fault "Unexpected command!"; a batch
  that returns holds no such frame, and what the client then received is exactly one
  callback per frame, in order. A command frame is never handed to the client.
\<close>

theorem inbound_command_is_fatal:
  assumes "mCb s = Some c"
  shows "OnDataReady s fs =
     (if COMMAND \<in> fst ` set fs then Inl (LOG_ALWAYS_FATAL ''Unexpected command!'')
      else Inr (s\<lparr>trace := trace s @ List.map_filter (delivery c) fs\<rparr>))"
  using assms
proof (induction fs arbitrary: s)
  case Nil
  then show ?case by (simp add: map_filter_simps)
next
  case (Cons f fs)
  show ?case
  proof (cases "delivery c f")
    case None
    then have "fst f = COMMAND" using delivery_None [of c f] by simp
    with None Cons.prems show ?thesis
      by (simp add: on_packet_ready_client)
  next
    case (Some e)
    then have nc: "fst f \<noteq> COMMAND" using delivery_None [of c f] by simp
    have "mCb (s\<lparr>trace := trace s @ [e]\<rparr>) = Some c" using Cons.prems by simp
    from Cons.IH [OF this] Some nc Cons.prems show ?thesis
      by (simp add: on_packet_ready_client map_filter_simps)
  qed
qed

theorem inbound_command_is_fatal_witness:
  "mCb (BluetoothHci_new\<lparr>mState := ONE_CLIENT, mCb := Some 1\<rparr>) = Some 1
   \<and> OnDataReady (BluetoothHci_new\<lparr>mState := ONE_CLIENT, mCb := Some 1\<rparr>)
        [(EVENT, [4, 14]), (COMMAND, [1, 3]), (ACL_DATA, [2])]
       = Inl (LOG_ALWAYS_FATAL ''Unexpected command!'')
   \<and> OnDataReady (BluetoothHci_new\<lparr>mState := ONE_CLIENT, mCb := Some 1\<rparr>)
        [(EVENT, [4, 14]), (ACL_DATA, [2])]
       = Inr (BluetoothHci_new\<lparr>mState := ONE_CLIENT, mCb := Some 1,
                trace := [hciEventReceived 1 [4, 14], aclDataReceived 1 [2]]\<rparr>)"
  using inbound_command_is_fatal [of "BluetoothHci_new\<lparr>mState := ONE_CLIENT, mCb := Some 1\<rparr>" 1
          "[(EVENT, [4, 14]), (COMMAND, [1, 3]), (ACL_DATA, [2])]"]
        inbound_command_is_fatal [of "BluetoothHci_new\<lparr>mState := ONE_CLIENT, mCb := Some 1\<rparr>" 1
          "[(EVENT, [4, 14]), (ACL_DATA, [2])]"]
  by (simp add: BluetoothHci_new_def map_filter_simps)

subsection \<open>C8: the death link at teardown\<close>

text \<open>
  Claim C8 does not hold of the code. \<^verbatim>\<open>UnlinkToDeath\<close> does compare its argument
  with the registered callback and is fatal on a mismatch, but close never calls it, and
  it does not take the registration back: after a successful initialize followed by
  close the link made for the client is still registered.
\<close>

theorem close_keeps_death_link:
  "run BluetoothHci_new [Initialize (Some 1) 3 True True, Close] =
     Inr (BluetoothHci_new\<lparr>mState := READY, mCb := Some 1, management := Some \<lparr>bt_fd = - 1\<rparr>,
            mFd := 3, mH4 := None, mFdWatcher := None,
            mDeathRecipient := \<lparr>dr_mCb = Some 1, has_died = False, linked = [1]\<rparr>,
            trace := [ALOGI ''initialize'', openHci_called 3, AIBinder_linkToDeath 1,
                      WatchFdForNonBlockingReads 3, ALOGI ''initialization complete'',
                      initializationComplete 1 SUCCESS, ALOGI ''close'',
                      StopWatchingFileDescriptors, closeHci_called]\<rparr>)
   \<and> UnlinkToDeath \<lparr>dr_mCb = Some 1, has_died = False, linked = [1]\<rparr> (Some 2) =
       Inl (LOG_ALWAYS_FATAL ''Unable to unlink mismatched pointers'')
   \<and> UnlinkToDeath \<lparr>dr_mCb = Some 1, has_died = False, linked = [1]\<rparr> (Some 1) =
       Inr \<lparr>dr_mCb = Some 1, has_died = False, linked = [1]\<rparr>"
  by (simp add: BluetoothHci_new_def initialize_success close_active closeHci_def
        UnlinkToDeath_def)

subsection \<open>C9: the client dies during an active session\<close>

text \<open>
  Claim C9. In any state \<open>ONE_CLIENT\<close> reached by a sequence of calls, a death
  notification for a client that the binder reports as not alive is handled as follows
  by a thread that enters holding no mutex of the object. The handler acquires
  \<open>mHasDiedMutex\<close>, writes the has-died flag while it holds that mutex and not
  \<open>mStateMutex\<close>, releases it, and only then enters close, holding nothing. Close
  takes \<open>mStateMutex\<close> for the test of the state and the write of \<open>CLOSING\<close>,
  releases it, stops the watcher and closes the device, and takes it again for the
  writes of \<open>READY\<close> and of the codec. The object ends in state \<open>READY\<close> with the
  flag set, the device closed and the codec dropped, with no close call from the client.
  The first two equations are on the sequential definitions, the third on the
  definitions with the mutexes; both give the same object.
\<close>

theorem death_notification_closes_session:
  assumes "run BluetoothHci_new cs = Inr s" and "mState s = ONE_CLIENT"
  shows "OnDeath s False =
     Inr (s\<lparr>mState := READY, management := Some \<lparr>bt_fd = - 1\<rparr>, mH4 := None,
             mFdWatcher := None,
             mDeathRecipient := (mDeathRecipient s)\<lparr>has_died := True\<rparr>,
             trace := trace s @ [ALOGE ''Bluetooth remote service has died'', ALOGI ''close'',
                                 StopWatchingFileDescriptors, closeHci_called]\<rparr>)
     \<and> OnDeath s False =
         (case close (s\<lparr>trace := trace s @ [ALOGE ''Bluetooth remote service has died''],
                        mDeathRecipient := (mDeathRecipient s)\<lparr>has_died := True\<rparr>\<rparr>) of
            Inl f \<Rightarrow> Inl f | Inr (st, s') \<Rightarrow> Inr s')
     \<and> OnDeath_locked (thread_start s) False =
         Inr \<lparr>obj = s\<lparr>mState := READY, management := Some \<lparr>bt_fd = - 1\<rparr>, mH4 := None,
                      mFdWatcher := None,
                      mDeathRecipient := (mDeathRecipient s)\<lparr>has_died := True\<rparr>,
                      trace := trace s @ [ALOGE ''Bluetooth remote service has died'',
                                          ALOGI ''close'', StopWatchingFileDescriptors,
                                          closeHci_called]\<rparr>,
              held = [],
              sync = [acquired mHasDiedMutex, write_of var_has_died [mHasDiedMutex],
                      released mHasDiedMutex,
                      close_entered [],
                      acquired mStateMutex, read_of var_mState [mStateMutex],
                      write_of var_mState [mStateMutex], released mStateMutex,
                      acquired mStateMutex, write_of var_mState [mStateMutex],
                      write_of var_mH4 [mStateMutex], released mStateMutex]\<rparr>"
proof -
  have live: "session_live s"
    using reachable_inv [OF assms(1)] assms(2) by (simp add: session_inv_def session_idle_def)
  then have m: "management s = Some \<lparr>bt_fd = mFd s\<rparr>" and c: "dr_mCb (mDeathRecipient s) \<noteq> None"
    by (auto simp: session_live_def)
  let ?s2 = "s\<lparr>trace := trace s @ [ALOGE ''Bluetooth remote service has died''],
               mDeathRecipient := (mDeathRecipient s)\<lparr>has_died := True\<rparr>\<rparr>"
  have a2: "mState ?s2 = ONE_CLIENT" and m2: "management ?s2 = Some \<lparr>bt_fd = mFd s\<rparr>"
    using assms(2) m by simp_all
  have d: "OnDeath s False = (case close ?s2 of Inl f \<Rightarrow> Inl f | Inr (st, s') \<Rightarrow> Inr s')"
    using c by (simp add: OnDeath_def serviceDied_def emit_def)
  have seq: "OnDeath s False =
     Inr (s\<lparr>mState := READY, management := Some \<lparr>bt_fd = - 1\<rparr>, mH4 := None,
             mFdWatcher := None,
             mDeathRecipient := (mDeathRecipient s)\<lparr>has_died := True\<rparr>,
             trace := trace s @ [ALOGE ''Bluetooth remote service has died'', ALOGI ''close'',
                                 StopWatchingFileDescriptors, closeHci_called]\<rparr>)"
    unfolding d close_active [OF a2 m2] by (simp add: closeHci_def)
  let ?t = "\<lparr>obj = ?s2, held = [],
             sync = [acquired mHasDiedMutex, write_of var_has_died [mHasDiedMutex],
                     released mHasDiedMutex]\<rparr>"
  have a3: "mState (obj ?t) = ONE_CLIENT" and m3: "management (obj ?t) = Some \<lparr>bt_fd = mFd s\<rparr>"
    and h3: "mStateMutex \<notin> set (held ?t)"
    using assms(2) m by simp_all
  have e: "OnDeath_locked (thread_start s) False =
             (case close_locked ?t of Inl f \<Rightarrow> Inl f | Inr (st, t') \<Rightarrow> Inr t')"
    using c by (simp add: OnDeath_locked_def serviceDied_locked_flag_then_close)
  have locked: "OnDeath_locked (thread_start s) False =
         Inr \<lparr>obj = s\<lparr>mState := READY, management := Some \<lparr>bt_fd = - 1\<rparr>, mH4 := None,
                      mFdWatcher := None,
                      mDeathRecipient := (mDeathRecipient s)\<lparr>has_died := True\<rparr>,
                      trace := trace s @ [ALOGE ''Bluetooth remote service has died'',
                                          ALOGI ''close'', StopWatchingFileDescriptors,
                                          closeHci_called]\<rparr>,
              held = [],
              sync = [acquired mHasDiedMutex, write_of var_has_died [mHasDiedMutex],
                      released mHasDiedMutex,
                      close_entered [],
                      acquired mStateMutex, read_of var_mState [mStateMutex],
                      write_of var_mState [mStateMutex], released mStateMutex,
                      acquired mStateMutex, write_of var_mState [mStateMutex],
                      write_of var_mH4 [mStateMutex], released mStateMutex]\<rparr>"
    unfolding e close_locked_active [OF a3 m3 h3] by (simp add: closeHci_def)
  from seq d locked show ?thesis by simp
qed

theorem death_notification_closes_session_witness:
  "run BluetoothHci_new [Initialize (Some 1) 3 True True] =
     Inr (BluetoothHci_new\<lparr>mState := ONE_CLIENT, mCb := Some 1, management := Some \<lparr>bt_fd = 3\<rparr>,
            mFd := 3, mH4 := Some (H4Protocol 3), mFdWatcher := Some 3,
            mDeathRecipient := \<lparr>dr_mCb = Some 1, has_died = False, linked = [1]\<rparr>,
            trace := [ALOGI ''initialize'', openHci_called 3, AIBinder_linkToDeath 1,
                      WatchFdForNonBlockingReads 3, ALOGI ''initialization complete'',
                      initializationComplete 1 SUCCESS]\<rparr>)
   \<and> OnDeath (BluetoothHci_new\<lparr>mState := ONE_CLIENT, mCb := Some 1, management := Some \<lparr>bt_fd = 3\<rparr>,
            mFd := 3, mH4 := Some (H4Protocol 3), mFdWatcher := Some 3,
            mDeathRecipient := \<lparr>dr_mCb = Some 1, has_died = False, linked = [1]\<rparr>,
            trace := [ALOGI ''initialize'', openHci_called 3, AIBinder_linkToDeath 1,
                      WatchFdForNonBlockingReads 3, ALOGI ''initialization complete'',
                      initializationComplete 1 SUCCESS]\<rparr>) False =
     Inr (BluetoothHci_new\<lparr>mState := READY, mCb := Some 1, management := Some \<lparr>bt_fd = - 1\<rparr>,
            mFd := 3, mH4 := None, mFdWatcher := None,
            mDeathRecipient := \<lparr>dr_mCb = Some 1, has_died = True, linked = [1]\<rparr>,
            trace := [ALOGI ''initialize'', openHci_called 3, AIBinder_linkToDeath 1,
                      WatchFdForNonBlockingReads 3, ALOGI ''initialization complete'',
                      initializationComplete 1 SUCCESS,
                      ALOGE ''Bluetooth remote service has died'', ALOGI ''close'',
                      StopWatchingFileDescriptors, closeHci_called]\<rparr>)
   \<and> OnDeath_locked (thread_start (BluetoothHci_new\<lparr>mState := ONE_CLIENT, mCb := Some 1, management := Some \<lparr>bt_fd = 3\<rparr>,
            mFd := 3, mH4 := Some (H4Protocol 3), mFdWatcher := Some 3,
            mDeathRecipient := \<lparr>dr_mCb = Some 1, has_died = False, linked = [1]\<rparr>,
            trace := [ALOGI ''initialize'', openHci_called 3, AIBinder_linkToDeath 1,
                      WatchFdForNonBlockingReads 3, ALOGI ''initialization complete'',
                      initializationComplete 1 SUCCESS]\<rparr>)) False =
     Inr \<lparr>obj = BluetoothHci_new\<lparr>mState := READY, mCb := Some 1, management := Some \<lparr>bt_fd = - 1\<rparr>,
            mFd := 3, mH4 := None, mFdWatcher := None,
            mDeathRecipient := \<lparr>dr_mCb = Some 1, has_died = True, linked = [1]\<rparr>,
            trace := [ALOGI ''initialize'', openHci_called 3, AIBinder_linkToDeath 1,
                      WatchFdForNonBlockingReads 3, ALOGI ''initialization complete'',
                      initializationComplete 1 SUCCESS,
                      ALOGE ''Bluetooth remote service has died'', ALOGI ''close'',
                      StopWatchingFileDescriptors, closeHci_called]\<rparr>,
          held = [],
          sync = [acquired mHasDiedMutex, write_of var_has_died [mHasDiedMutex],
                  released mHasDiedMutex,
                  close_entered [],
                  acquired mStateMutex, read_of var_mState [mStateMutex],
                  write_of var_mState [mStateMutex], released mStateMutex,
                  acquired mStateMutex, write_of var_mState [mStateMutex],
                  write_of var_mH4 [mStateMutex], released mStateMutex]\<rparr>"
proof -
  let ?s = "BluetoothHci_new\<lparr>mState := ONE_CLIENT, mCb := Some 1, management := Some \<lparr>bt_fd = 3\<rparr>,
            mFd := 3, mH4 := Some (H4Protocol 3), mFdWatcher := Some 3,
            mDeathRecipient := \<lparr>dr_mCb = Some 1, has_died = False, linked = [1]\<rparr>,
            trace := [ALOGI ''initialize'', openHci_called 3, AIBinder_linkToDeath 1,
                      WatchFdForNonBlockingReads 3, ALOGI ''initialization complete'',
                      initializationComplete 1 SUCCESS]\<rparr>"
  have r: "run BluetoothHci_new [Initialize (Some 1) 3 True True] = Inr ?s"
    by (simp add: BluetoothHci_new_def initialize_success)
  have a: "mState ?s = ONE_CLIENT"
    by simp
  note w = death_notification_closes_session [OF r a]
  note w1 = w [THEN conjunct1]
  note w3 = w [THEN conjunct2, THEN conjunct2]
  have p1: "OnDeath ?s False =
     Inr (BluetoothHci_new\<lparr>mState := READY, mCb := Some 1, management := Some \<lparr>bt_fd = - 1\<rparr>,
            mFd := 3, mH4 := None, mFdWatcher := None,
            mDeathRecipient := \<lparr>dr_mCb = Some 1, has_died = True, linked = [1]\<rparr>,
            trace := [ALOGI ''initialize'', openHci_called 3, AIBinder_linkToDeath 1,
                      WatchFdForNonBlockingReads 3, ALOGI ''initialization complete'',
                      initializationComplete 1 SUCCESS,
                      ALOGE ''Bluetooth remote service has died'', ALOGI ''close'',
                      StopWatchingFileDescriptors, closeHci_called]\<rparr>)"
    unfolding w1 by (simp add: BluetoothHci_new_def)
  have p3: "OnDeath_locked (thread_start ?s) False =
     Inr \<lparr>obj = BluetoothHci_new\<lparr>mState := READY, mCb := Some 1, management := Some \<lparr>bt_fd = - 1\<rparr>,
            mFd := 3, mH4 := None, mFdWatcher := None,
            mDeathRecipient := \<lparr>dr_mCb = Some 1, has_died = True, linked = [1]\<rparr>,
            trace := [ALOGI ''initialize'', openHci_called 3, AIBinder_linkToDeath 1,
                      WatchFdForNonBlockingReads 3, ALOGI ''initialization complete'',
                      initializationComplete 1 SUCCESS,
                      ALOGE ''Bluetooth remote service has died'', ALOGI ''close'',
                      StopWatchingFileDescriptors, closeHci_called]\<rparr>,
          held = [],
          sync = [acquired mHasDiedMutex, write_of var_has_died [mHasDiedMutex],
                  released mHasDiedMutex,
                  close_entered [],
                  acquired mStateMutex, read_of var_mState [mStateMutex],
                  write_of var_mState [mStateMutex], released mStateMutex,
                  acquired mStateMutex, write_of var_mState [mStateMutex],
                  write_of var_mH4 [mStateMutex], released mStateMutex]\<rparr>"
    unfolding w3 by (simp add: BluetoothHci_new_def)
  from r p1 p3 show ?thesis
    by (intro conjI)
qed

subsection \<open>C10: the success notification does not reach the client\<close>

text \<open>
  Claim C10. When initialize, called in state \<open>READY\<close>, has opened the device and
  registered the death link, and \<^verbatim>\<open>initializationComplete(SUCCESS)\<close> does not reach
  the client while the has-died flag is not set, the error is logged, close tears the
  session down again, and initialize returns the service specific error
  \<open>STATUS_FAILED_TRANSACTION\<close>.
\<close>

theorem initialize_unsent_completion:
  assumes "mState s = READY" and "0 \<le> r" and "link_ok"
    and "\<not> getHasDied (mDeathRecipient s)"
  shows "initialize s (Some c) r link_ok False =
     Inr (fromServiceSpecificError STATUS_FAILED_TRANSACTION,
          s\<lparr>mState := READY, mCb := Some c, management := Some \<lparr>bt_fd = - 1\<rparr>, mFd := r,
            mH4 := None, mFdWatcher := None,
            mDeathRecipient := (mDeathRecipient s)\<lparr>dr_mCb := Some c,
                                 linked := linked (mDeathRecipient s) @ [c]\<rparr>,
            trace := trace s @
              [ALOGI ''initialize'', openHci_called r, AIBinder_linkToDeath c,
               WatchFdForNonBlockingReads r, ALOGI ''initialization complete'',
               initializationComplete c SUCCESS,
               ALOGE ''Error sending init callback, but no death notification'',
               ALOGI ''close'', StopWatchingFileDescriptors, closeHci_called]\<rparr>)"
  using assms by (simp add: initialize_unsent getHasDied_def)

theorem initialize_unsent_completion_witness:
  "mState BluetoothHci_new = READY \<and> (0 :: int) \<le> 3
   \<and> \<not> getHasDied (mDeathRecipient BluetoothHci_new)
   \<and> initialize BluetoothHci_new (Some 1) 3 True False =
     Inr (fromServiceSpecificError STATUS_FAILED_TRANSACTION,
          BluetoothHci_new\<lparr>mState := READY, mCb := Some 1, management := Some \<lparr>bt_fd = - 1\<rparr>,
            mFd := 3, mH4 := None, mFdWatcher := None,
            mDeathRecipient := \<lparr>dr_mCb = Some 1, has_died = False, linked = [1]\<rparr>,
            trace :=
              [ALOGI ''initialize'', openHci_called 3, AIBinder_linkToDeath 1,
               WatchFdForNonBlockingReads 3, ALOGI ''initialization complete'',
               initializationComplete 1 SUCCESS,
               ALOGE ''Error sending init callback, but no death notification'',
               ALOGI ''close'', StopWatchingFileDescriptors, closeHci_called]\<rparr>)"
  using initialize_unsent_completion [of BluetoothHci_new 3 True 1]
  by (simp add: BluetoothHci_new_def getHasDied_def)

end
